theory Spec2Isabelle
  imports Complex_Main "HOL-Library.Multiset"
begin

section \<open>Numbers, strings and thrown values\<close>

text \<open>
  The arguments validated with \<open>v.number()\<close> are JavaScript numbers. The finite ones are
  rationals; the three special values are kept, because \<open>Math.max\<close>, \<open>Math.min\<close> and
  the comparison of the loop guard treat them differently from every finite number.
\<close>

datatype number = Fin rat | PosInf | NegInf | NaN

text \<open>The strict comparison of JavaScript, \<^verbatim>\<open>a < b\<close>: false as soon as one side is \<open>NaN\<close>.\<close>

fun number_less :: "number \<Rightarrow> number \<Rightarrow> bool" where
  "number_less (Fin a) (Fin b) = (a < b)"
| "number_less (Fin a) PosInf = True"
| "number_less NegInf (Fin b) = True"
| "number_less NegInf PosInf = True"
| "number_less _ _ = False"

definition number_le :: "number \<Rightarrow> number \<Rightarrow> bool" where
  "number_le a b = (a \<noteq> NaN \<and> b \<noteq> NaN \<and> \<not> number_less b a)"

definition Math_max :: "number \<Rightarrow> number \<Rightarrow> number" where
  "Math_max a b = (if a = NaN \<or> b = NaN then NaN else if number_less a b then b else a)"

definition Math_min :: "number \<Rightarrow> number \<Rightarrow> number" where
  "Math_min a b = (if a = NaN \<or> b = NaN then NaN else if number_less b a then b else a)"

text \<open>
  A value that may be \<open>undefined\<close> or \<open>null\<close> is an option. Such a string is truthy
  when it is present and not empty (\<open>if (url)\<close>, \<open>!token\<close>, \<open>filter(Boolean)\<close>).
\<close>

fun truthy :: "string option \<Rightarrow> bool" where
  "truthy None = False"
| "truthy (Some s) = (s \<noteq> [])"

definition filter_Boolean :: "string option list \<Rightarrow> string list" where
  "filter_Boolean us = map the (filter truthy us)"

text \<open>
  What a \<open>throw\<close> carries: an \<open>Error\<close> object with its message, or some other value
  (for which \<open>error instanceof Error\<close> is false).
\<close>

datatype thrown = JsError string | NonError

definition ArgumentValidationError :: thrown where
  "ArgumentValidationError = JsError ''ArgumentValidationError''"

section \<open>Constants and validators\<close>

definition FAL_MODEL_NAME :: string where
  "FAL_MODEL_NAME = ''fal-ai/nano-banana-pro''"

definition HUGGINGFACE_MODEL_NAME :: string where
  "HUGGINGFACE_MODEL_NAME = ''ByteDance/SDXL-Lightning''"

definition HUGGINGFACE_BASE_SIZE :: rat where
  "HUGGINGFACE_BASE_SIZE = 1024"

definition aspectRatioValidator :: "string \<Rightarrow> bool" where
  "aspectRatioValidator s =
     (s = ''1:1'' \<or> s = ''4:3'' \<or> s = ''3:2'' \<or> s = ''16:9'' \<or> s = ''9:16'')"

definition resolutionValidator :: "string \<Rightarrow> bool" where
  "resolutionValidator s = (s = ''1K'' \<or> s = ''2K'' \<or> s = ''4K'')"

definition outputFormatValidator :: "string \<Rightarrow> bool" where
  "outputFormatValidator s = (s = ''png'' \<or> s = ''jpeg'' \<or> s = ''webp'')"

definition providerValidator :: "string \<Rightarrow> bool" where
  "providerValidator s = (s = ''fal'' \<or> s = ''huggingface'')"

text \<open>\<open>v.optional(validator)\<close>: an absent value passes.\<close>

fun v_optional :: "('a \<Rightarrow> bool) \<Rightarrow> 'a option \<Rightarrow> bool" where
  "v_optional validator None = True"
| "v_optional validator (Some x) = validator x"

section \<open>Provider adapter: the pure part\<close>

text \<open>
  \<open>ASPECT_RATIO_MAP\<close> is an object literal, so the lookup \<open>ASPECT_RATIO_MAP[key]\<close> finds
  one of its five own keys, or else a property that every object inherits from
  \<open>Object.prototype\<close> (a function, or for \<open>__proto__\<close> the prototype itself), or else
  nothing, which is \<open>undefined\<close>.
\<close>

definition Object_prototype_keys :: "string list" where
  "Object_prototype_keys =
     [''constructor'', ''hasOwnProperty'', ''isPrototypeOf'', ''propertyIsEnumerable'',
      ''toLocaleString'', ''toString'', ''valueOf'', ''__proto__'',
      ''__defineGetter__'', ''__defineSetter__'', ''__lookupGetter__'', ''__lookupSetter__'']"

datatype property = Tuple "rat \<times> rat" | Inherited | Undefined

definition ASPECT_RATIO_MAP :: "string \<Rightarrow> property" where
  "ASPECT_RATIO_MAP key =
     (case map_of [(''1:1'', (1, 1)), (''4:3'', (4, 3)), (''3:2'', (3, 2)),
                   (''16:9'', (16, 9)), (''9:16'', (9, 16))] key of
        Some pair \<Rightarrow> Tuple pair
      | None \<Rightarrow> if key \<in> set Object_prototype_keys then Inherited else Undefined)"

text \<open>
  \<open>Math.round\<close> is \<open>\<lfloor>x + 1/2\<rfloor>\<close>, which is \<^const>\<open>round\<close>. The dimension arithmetic
  works on the finite, non-zero constants of the ratio table, of the base size and of
  the multiple 64, so it is written on rationals; at the five ratios of the table the
  double-precision results are the same numbers.
\<close>

definition roundToMultiple :: "rat \<Rightarrow> rat \<Rightarrow> rat" where
  "roundToMultiple value multiple = max multiple (of_int (round (value / multiple)) * multiple)"

definition normalizeProvider :: "string option \<Rightarrow> string" where
  "normalizeProvider provider =
     (if provider = Some ''huggingface'' then ''huggingface'' else ''fal'')"

record dimensions =
  width :: rat
  height :: rat

text \<open>
  \<open>?? [1, 1]\<close> replaces \<open>undefined\<close> only. The destructuring \<open>const [ratioWidth,
  ratioHeight] = ...\<close> then takes the two components of a pair, and throws a
  \<open>TypeError\<close> on an inherited property, which is not iterable (the wording of the
  message is the engine's).
\<close>

definition resolveHuggingFaceDimensions :: "string \<Rightarrow> thrown + dimensions" where
  "resolveHuggingFaceDimensions aspectRatio =
     (case (case ASPECT_RATIO_MAP aspectRatio of Undefined \<Rightarrow> Tuple (1, 1) | found \<Rightarrow> found) of
        Tuple (ratioWidth, ratioHeight) \<Rightarrow>
          (let scale = HUGGINGFACE_BASE_SIZE / max ratioWidth ratioHeight;
               width = roundToMultiple (ratioWidth * scale) 64;
               height = roundToMultiple (ratioHeight * scale) 64
           in Inr \<lparr> width = width, height = height \<rparr>)
      | _ \<Rightarrow> Inl (JsError ''TypeError: object is not iterable''))"

section \<open>The images table and its three functions\<close>

text \<open>
  A document of the table \<open>images\<close>, as the schema declares it. The table is the list of
  its documents in insertion order; nothing deletes a document, so the identifier that
  \<open>db.insert\<close> returns is the position of the new document. The two timestamps hold
  readings of \<open>Date.now()\<close>, whole milliseconds.
\<close>

record image =
  prompt :: string
  model :: string
  provider :: string
  aspectRatio :: string
  resolution :: string
  outputFormat :: string
  numImages :: number
  status :: string
  createdAt :: int
  updatedAt :: int
  imageUrls :: "string list option"
  requestId :: "string option"
  error :: "string option"

type_synonym db = "image list"

text \<open>
  \<open>take(n)\<close> of the store accepts a count, a non-negative integer, and raises on any
  other number.
\<close>

definition store_take :: "number \<Rightarrow> 'a list \<Rightarrow> thrown + 'a list" where
  "store_take n xs =
     (case n of
        Fin q \<Rightarrow> if 0 \<le> q \<and> of_int \<lfloor>q\<rfloor> = q then Inr (take (nat \<lfloor>q\<rfloor>) xs)
                 else Inl (JsError ''take: n must be a non-negative integer'')
      | _ \<Rightarrow> Inl (JsError ''take: n must be a non-negative integer''))"

text \<open>
  The index \<open>by_created_at\<close> orders by \<open>createdAt\<close>, and documents with equal
  \<open>createdAt\<close> by their insertion; \<open>order("desc")\<close> reads it backwards.
\<close>

definition by_created_at_desc :: "db \<Rightarrow> image list" where
  "by_created_at_desc d = rev (sort_key image.createdAt d)"

text \<open>The query \<open>list\<close>. It returns the table it was given: a query has no writer.\<close>

definition list_query :: "number option \<Rightarrow> db \<Rightarrow> (thrown + image list) \<times> db" where
  "list_query limit d =
     (let cappedLimit = (case limit of None \<Rightarrow> Fin 24 | Some n \<Rightarrow> n)
      in (store_take cappedLimit (by_created_at_desc d), d))"

record create_args =
  prompt :: string
  model :: string
  provider :: string
  aspectRatio :: string
  resolution :: string
  outputFormat :: string
  numImages :: number
  status :: string
  createdAt :: int
  updatedAt :: int

definition create_args_valid :: "create_args \<Rightarrow> bool" where
  "create_args_valid a =
     (providerValidator (create_args.provider a) \<and>
      aspectRatioValidator (create_args.aspectRatio a) \<and>
      resolutionValidator (create_args.resolution a) \<and>
      outputFormatValidator (create_args.outputFormat a))"

definition inserted :: "create_args \<Rightarrow> image" where
  "inserted a =
     \<lparr> image.prompt = create_args.prompt a,
       model = create_args.model a,
       provider = create_args.provider a,
       aspectRatio = create_args.aspectRatio a,
       resolution = create_args.resolution a,
       outputFormat = create_args.outputFormat a,
       numImages = create_args.numImages a,
       status = create_args.status a,
       createdAt = create_args.createdAt a,
       updatedAt = create_args.updatedAt a,
       imageUrls = None, requestId = None, error = None \<rparr>"

text \<open>The mutation \<open>create\<close>: \<open>db.insert("images", args)\<close> behind the argument validators.\<close>

definition create :: "create_args \<Rightarrow> db \<Rightarrow> (thrown + nat) \<times> db" where
  "create a d =
     (if create_args_valid a then (Inr (length d), d @ [inserted a])
      else (Inl ArgumentValidationError, d))"

record update_args =
  image_id :: nat
  status :: "string option"
  imageUrls :: "string list option"
  requestId :: "string option"
  error :: "string option"
  updatedAt :: int

text \<open>
  \<open>db.patch(id, fields)\<close> writes the fields that are present in \<open>fields\<close> and leaves every
  other field of the document as it is.
\<close>

definition patch :: "image \<Rightarrow> update_args \<Rightarrow> image" where
  "patch doc fs =
     doc \<lparr> image.status := (case update_args.status fs of
                              None \<Rightarrow> image.status doc | Some s \<Rightarrow> s),
           image.imageUrls := (case update_args.imageUrls fs of
                              None \<Rightarrow> image.imageUrls doc | Some us \<Rightarrow> Some us),
           image.requestId := (case update_args.requestId fs of
                              None \<Rightarrow> image.requestId doc | Some r \<Rightarrow> Some r),
           image.error := (case update_args.error fs of
                              None \<Rightarrow> image.error doc | Some m \<Rightarrow> Some m),
           image.updatedAt := update_args.updatedAt fs \<rparr>"

text \<open>The mutation \<open>update\<close>. The store raises when the table holds no such document.\<close>

definition update :: "update_args \<Rightarrow> db \<Rightarrow> (thrown + unit) \<times> db" where
  "update a d =
     (if image_id a < length d
      then (Inr (), d[image_id a := patch (d ! image_id a) a])
      else (Inl (JsError ''Update on nonexistent document''), d))"

section \<open>The outside world of one \<open>generate\<close> call\<close>

type_synonym blob = string

record hf_request =
  model :: string
  inputs :: string
  width :: rat
  height :: rat

record fal_input =
  prompt :: string
  aspect_ratio :: string
  resolution :: string
  output_format :: string
  num_images :: number

record fal_image =
  url :: "string option"

record fal_data =
  images :: "fal_image list option"

record fal_result =
  data :: "fal_data option"
  requestId :: "string option"

text \<open>
  Everything \<open>generate\<close> reads from outside: the two readings of \<open>Date.now()\<close> (on entry,
  and at the patch that ends the call), the two secrets of \<open>process.env\<close>, and the answers
  of the providers and of the blob store. An answer is the value returned or the value
  thrown. The calls of the Hugging Face loop also take the index of the iteration, since
  the same request may be answered differently each time.
\<close>

record env =
  Date_now_requested :: int
  Date_now_patch :: int
  HF_TOKEN :: "string option"
  FAL_KEY :: "string option"
  textToImage :: "nat \<Rightarrow> hf_request \<Rightarrow> thrown + blob"
  storage_store :: "nat \<Rightarrow> blob \<Rightarrow> thrown + string"
  storage_getUrl :: "nat \<Rightarrow> string \<Rightarrow> thrown + string option"
  fal_subscribe :: "fal_input \<Rightarrow> thrown + fal_result"

section \<open>The action \<open>generate\<close>\<close>

record generate_args =
  prompt :: string
  aspectRatio :: string
  resolution :: string
  outputFormat :: string
  numImages :: "number option"
  provider :: "string option"

definition generate_args_valid :: "generate_args \<Rightarrow> bool" where
  "generate_args_valid args =
     (aspectRatioValidator (generate_args.aspectRatio args) \<and>
      resolutionValidator (generate_args.resolution args) \<and>
      outputFormatValidator (generate_args.outputFormat args) \<and>
      v_optional (\<lambda>n. True) (generate_args.numImages args) \<and>
      v_optional providerValidator (generate_args.provider args))"

record generate_result =
  result_id :: nat
  imageUrls :: "string list"
  requestId :: "string option"

text \<open>
  One iteration of the Hugging Face loop up to its \<open>if (url)\<close>: \<open>textToImage\<close>, then
  \<open>storage.store\<close>, then \<open>storage.getUrl\<close>; the first of them that throws ends it.
\<close>

definition hf_iteration :: "env \<Rightarrow> hf_request \<Rightarrow> nat \<Rightarrow> thrown + string option" where
  "hf_iteration e req index =
     (case textToImage e index req of
        Inl t \<Rightarrow> Inl t
      | Inr imageBlob \<Rightarrow>
          (case storage_store e index imageBlob of
             Inl t \<Rightarrow> Inl t
           | Inr storageId \<Rightarrow> storage_getUrl e index storageId))"

text \<open>
  The loop \<open>for (index = 0; index < numImages; index += 1)\<close>, from the current index and
  the list pushed so far. \<open>None\<close> is a loop that never ends.
\<close>

partial_function (option) hf_loop ::
  "env \<Rightarrow> hf_request \<Rightarrow> number \<Rightarrow> nat \<Rightarrow> string list \<Rightarrow> (thrown + string list) option" where
  "hf_loop e req n index urls =
     (if number_less (Fin (of_nat index)) n then
        (case hf_iteration e req index of
           Inl t \<Rightarrow> Some (Inl t)
         | Inr u \<Rightarrow> hf_loop e req n (Suc index) (if truthy u then urls @ [the u] else urls))
      else Some (Inr urls))"

declare hf_loop.simps [code]

text \<open>
  The body of \<open>try\<close>. It yields the value thrown inside it or the value returned, with
  the table as it is then.
\<close>

definition generate_try ::
  "env \<Rightarrow> generate_args \<Rightarrow> string \<Rightarrow> number \<Rightarrow> string \<Rightarrow> string \<Rightarrow> nat \<Rightarrow> db
     \<Rightarrow> ((thrown + generate_result) \<times> db) option" where
  "generate_try e args prov n resolvedResolution resolvedOutputFormat imageId d =
     (if prov = ''huggingface'' then
        (if \<not> truthy (HF_TOKEN e)
         then Some (Inl (JsError ''Missing HF_TOKEN environment variable.''), d)
         else
           (case resolveHuggingFaceDimensions (generate_args.aspectRatio args) of
              Inl t \<Rightarrow> Some (Inl t, d)
            | Inr dims \<Rightarrow>
           (case hf_loop e \<lparr> hf_request.model = HUGGINGFACE_MODEL_NAME,
                              inputs = generate_args.prompt args,
                              width = dimensions.width dims,
                              height = dimensions.height dims \<rparr> n 0 [] of
              None \<Rightarrow> None
            | Some (Inl t) \<Rightarrow> Some (Inl t, d)
            | Some (Inr urls) \<Rightarrow>
                if length urls = 0
                then Some (Inl (JsError ''Hugging Face returned no images.''), d)
                else
                  (case update \<lparr> image_id = imageId, status = Some ''complete'',
                                  imageUrls = Some urls, requestId = None, error = None,
                                  updatedAt = Date_now_patch e \<rparr> d of
                     (Inl t, d') \<Rightarrow> Some (Inl t, d')
                   | (Inr _, d') \<Rightarrow>
                       Some (Inr \<lparr> result_id = imageId, imageUrls = urls, requestId = None \<rparr>,
                             d')))))
      else
        (if \<not> truthy (FAL_KEY e)
         then Some (Inl (JsError ''Missing FAL_KEY environment variable.''), d)
         else
           (case fal_subscribe e \<lparr> fal_input.prompt = generate_args.prompt args,
                                     aspect_ratio = generate_args.aspectRatio args,
                                     resolution = resolvedResolution,
                                     output_format = resolvedOutputFormat,
                                     num_images = n \<rparr> of
              Inl t \<Rightarrow> Some (Inl t, d)
            | Inr result \<Rightarrow>
                (let urls = (case fal_result.data result of
                               None \<Rightarrow> []
                             | Some dt \<Rightarrow>
                                 (case fal_data.images dt of
                                    None \<Rightarrow> []
                                  | Some imgs \<Rightarrow> filter_Boolean (map fal_image.url imgs)));
                     rid = fal_result.requestId result
                 in case update \<lparr> image_id = imageId, status = Some ''complete'',
                                   imageUrls = Some urls, requestId = rid, error = None,
                                   updatedAt = Date_now_patch e \<rparr> d of
                      (Inl t, d') \<Rightarrow> Some (Inl t, d')
                    | (Inr _, d') \<Rightarrow>
                        Some (Inr \<lparr> result_id = imageId, imageUrls = urls, requestId = rid \<rparr>,
                              d')))))"

text \<open>\<open>error instanceof Error ? error.message : "Unexpected image generation error."\<close>\<close>

fun error_message :: "thrown \<Rightarrow> string" where
  "error_message (JsError m) = m"
| "error_message NonError = ''Unexpected image generation error.''"

text \<open>
  The handler: the normalised values, the insertion of the queued document, the body of
  \<open>try\<close>, and the \<open>catch\<close> that patches the document and throws the same value again.
\<close>

definition generate_handler ::
  "env \<Rightarrow> generate_args \<Rightarrow> db \<Rightarrow> ((thrown + generate_result) \<times> db) option" where
  "generate_handler e args d =
     (let requestedAt = Date_now_requested e;
          prov = normalizeProvider (generate_args.provider args);
          n = Math_min (Fin 4) (Math_max (Fin 1)
                (case generate_args.numImages args of None \<Rightarrow> Fin 1 | Some x \<Rightarrow> x));
          modelName = (if prov = ''huggingface'' then HUGGINGFACE_MODEL_NAME
                       else FAL_MODEL_NAME);
          resolvedResolution = (if prov = ''huggingface'' then ''1K''
                                else generate_args.resolution args);
          resolvedOutputFormat = (if prov = ''huggingface'' then ''png''
                                  else generate_args.outputFormat args)
      in case create \<lparr> create_args.prompt = generate_args.prompt args,
                        model = modelName,
                        provider = prov,
                        aspectRatio = generate_args.aspectRatio args,
                        resolution = resolvedResolution,
                        outputFormat = resolvedOutputFormat,
                        numImages = n,
                        status = ''queued'',
                        createdAt = requestedAt,
                        updatedAt = requestedAt \<rparr> d of
           (Inl t, d0) \<Rightarrow> Some (Inl t, d0)
         | (Inr imageId, d1) \<Rightarrow>
             (case generate_try e args prov n resolvedResolution resolvedOutputFormat
                     imageId d1 of
                None \<Rightarrow> None
              | Some (Inr r, d2) \<Rightarrow> Some (Inr r, d2)
              | Some (Inl err, d2) \<Rightarrow>
                  (let message = error_message err
                   in case update \<lparr> image_id = imageId, status = Some ''failed'',
                                     imageUrls = None, requestId = None,
                                     error = Some message,
                                     updatedAt = Date_now_patch e \<rparr> d2 of
                        (Inl t, d3) \<Rightarrow> Some (Inl t, d3)
                      | (Inr _, d3) \<Rightarrow> Some (Inl err, d3))))"

text \<open>
  The action: the argument validators first (a call they refuse never reaches the
  handler), then the handler.
\<close>

definition generate ::
  "env \<Rightarrow> generate_args \<Rightarrow> db \<Rightarrow> ((thrown + generate_result) \<times> db) option" where
  "generate e args d =
     (if generate_args_valid args then generate_handler e args d
      else Some (Inl ArgumentValidationError, d))"

section \<open>Notions used to state the results\<close>

text \<open>
  The definitions of this section are not functions of the program. They name what the
  theorems speak about: the dimensions that the resolution returns (0 by 0 where it
  throws, which no call that passes the validators meets), the number of iterations of
  the loop, what the loop collects from a list of answers, the normalised values of a
  call, the document each ending writes.
  The lemmas that follow connect each of them to the functions above.
\<close>

definition resolved :: "string \<Rightarrow> dimensions" where
  "resolved a =
     (case resolveHuggingFaceDimensions a of
        Inr dims \<Rightarrow> dims
      | Inl t \<Rightarrow> \<lparr> dimensions.width = 0, height = 0 \<rparr>)"

definition iterations :: "number \<Rightarrow> nat" where
  "iterations n = (case n of Fin q \<Rightarrow> nat \<lceil>q\<rceil> | _ \<Rightarrow> 0)"

fun collect :: "(thrown + string option) list \<Rightarrow> string list \<Rightarrow> thrown + string list" where
  "collect [] urls = Inr urls"
| "collect (Inl t # rs) urls = Inl t"
| "collect (Inr u # rs) urls = collect rs (if truthy u then urls @ [the u] else urls)"

definition clamped :: "generate_args \<Rightarrow> number" where
  "clamped args = Math_min (Fin 4) (Math_max (Fin 1)
                (case generate_args.numImages args of None \<Rightarrow> Fin 1 | Some x \<Rightarrow> x))"

definition queued :: "env \<Rightarrow> generate_args \<Rightarrow> image" where
  "queued e args =
     \<lparr> image.prompt = generate_args.prompt args,
       model = (if generate_args.provider args = Some ''huggingface''
                then HUGGINGFACE_MODEL_NAME else FAL_MODEL_NAME),
       provider = normalizeProvider (generate_args.provider args),
       aspectRatio = generate_args.aspectRatio args,
       resolution = (if generate_args.provider args = Some ''huggingface''
                     then ''1K'' else generate_args.resolution args),
       outputFormat = (if generate_args.provider args = Some ''huggingface''
                       then ''png'' else generate_args.outputFormat args),
       numImages = clamped args,
       status = ''queued'',
       createdAt = Date_now_requested e,
       updatedAt = Date_now_requested e,
       imageUrls = None, requestId = None, error = None \<rparr>"

definition hf_req :: "generate_args \<Rightarrow> hf_request" where
  "hf_req args =
     \<lparr> hf_request.model = HUGGINGFACE_MODEL_NAME,
       inputs = generate_args.prompt args,
       width = dimensions.width (resolved (generate_args.aspectRatio args)),
       height = dimensions.height (resolved (generate_args.aspectRatio args)) \<rparr>"

definition hf_answers :: "env \<Rightarrow> generate_args \<Rightarrow> (thrown + string option) list" where
  "hf_answers e args = map (hf_iteration e (hf_req args)) [0 ..< iterations (clamped args)]"

definition fal_in :: "generate_args \<Rightarrow> fal_input" where
  "fal_in args =
     \<lparr> fal_input.prompt = generate_args.prompt args,
       aspect_ratio = generate_args.aspectRatio args,
       resolution = generate_args.resolution args,
       output_format = generate_args.outputFormat args,
       num_images = clamped args \<rparr>"

definition fal_urls :: "fal_result \<Rightarrow> string list" where
  "fal_urls result =
     (case fal_result.data result of
        None \<Rightarrow> []
      | Some dt \<Rightarrow> (case fal_data.images dt of
                     None \<Rightarrow> []
                   | Some imgs \<Rightarrow> filter_Boolean (map fal_image.url imgs)))"

definition attempt :: "env \<Rightarrow> generate_args \<Rightarrow> thrown + string list \<times> string option" where
  "attempt e args =
     (if generate_args.provider args = Some ''huggingface'' then
        (if \<not> truthy (HF_TOKEN e) then Inl (JsError ''Missing HF_TOKEN environment variable.'')
         else (case collect (hf_answers e args) [] of
                 Inl t \<Rightarrow> Inl t
               | Inr urls \<Rightarrow> if urls = [] then Inl (JsError ''Hugging Face returned no images.'')
                             else Inr (urls, None)))
      else
        (if \<not> truthy (FAL_KEY e) then Inl (JsError ''Missing FAL_KEY environment variable.'')
         else (case fal_subscribe e (fal_in args) of
                 Inl t \<Rightarrow> Inl t
               | Inr result \<Rightarrow> Inr (fal_urls result, fal_result.requestId result))))"

definition failed_doc :: "env \<Rightarrow> generate_args \<Rightarrow> thrown \<Rightarrow> image" where
  "failed_doc e args t =
     (queued e args) \<lparr> image.status := ''failed'', image.error := Some (error_message t),
                        image.updatedAt := Date_now_patch e \<rparr>"

definition complete_doc :: "env \<Rightarrow> generate_args \<Rightarrow> string list \<Rightarrow> string option \<Rightarrow> image" where
  "complete_doc e args urls rid =
     (queued e args) \<lparr> image.status := ''complete'', image.imageUrls := Some urls,
                        image.requestId := rid, image.updatedAt := Date_now_patch e \<rparr>"

section \<open>Example inputs\<close>

text \<open>
  Concrete tables, arguments and environments, at which the results below are evaluated.
  In \<open>example_env\<close> both secrets are set, every Hugging Face call returns an image that
  the blob store accepts, the store has a URL for the images of iterations 0 and 2 and
  none for the others, and the fal provider returns one image and a request id.
\<close>

definition example_doc :: "int \<Rightarrow> image" where
  "example_doc t =
     \<lparr> image.prompt = ''a red fox'', model = FAL_MODEL_NAME, provider = ''fal'',
       aspectRatio = ''1:1'', resolution = ''1K'', outputFormat = ''png'',
       numImages = Fin 1, status = ''complete'', createdAt = t, updatedAt = t + 7,
       imageUrls = Some [''https://img.example/1.png''], requestId = Some ''r1'',
       error = None \<rparr>"

definition example_table :: db where
  "example_table = map example_doc [30, 10, 50, 20, 40]"

definition example_patch :: update_args where
  "example_patch =
     \<lparr> image_id = 1, status = Some ''failed'', imageUrls = None, requestId = None,
       error = Some ''provider unreachable'', updatedAt = 99 \<rparr>"

definition example_args :: generate_args where
  "example_args =
     \<lparr> generate_args.prompt = ''a red fox'', aspectRatio = ''16:9'', resolution = ''4K'',
       outputFormat = ''webp'', numImages = Some (Fin 4), provider = Some ''huggingface'' \<rparr>"

definition example_env :: env where
  "example_env =
     \<lparr> Date_now_requested = 1000, Date_now_patch = 2000,
       HF_TOKEN = Some ''hf_secret'', FAL_KEY = Some ''fal_secret'',
       textToImage = (\<lambda>index req. Inr ''png bytes''),
       storage_store = (\<lambda>index imageBlob. Inr ''storage id''),
       storage_getUrl = (\<lambda>index storageId.
          Inr (if index = 0 then Some ''https://store.example/0''
               else if index = 2 then Some ''https://store.example/2'' else None)),
       fal_subscribe = (\<lambda>input.
          Inr \<lparr> data = Some \<lparr> images = Some [\<lparr> url = Some ''https://fal.example/a'' \<rparr>] \<rparr>,
                 requestId = Some ''req-1'' \<rparr>) \<rparr>"

definition args_NaN :: generate_args where
  "args_NaN =
     \<lparr> generate_args.prompt = ''a red fox'', aspectRatio = ''1:1'', resolution = ''1K'',
       outputFormat = ''png'', numImages = Some NaN, provider = None \<rparr>"

definition args_fal :: generate_args where
  "args_fal =
     \<lparr> generate_args.prompt = ''a red fox'', aspectRatio = ''4:3'', resolution = ''2K'',
       outputFormat = ''jpeg'', numImages = Some (Fin 2), provider = Some ''fal'' \<rparr>"

definition env_fal_no_urls :: env where
  "env_fal_no_urls =
     example_env \<lparr> fal_subscribe := (\<lambda>input.
        Inr \<lparr> data = Some \<lparr> images = Some [\<lparr> url = None \<rparr>, \<lparr> url = Some [] \<rparr>] \<rparr>,
               requestId = Some ''req-2'' \<rparr>) \<rparr>"

definition env_fal_raises :: env where
  "env_fal_raises = example_env \<lparr> fal_subscribe := (\<lambda>input. Inl (JsError [])) \<rparr>"

definition env_hf_raises :: env where
  "env_hf_raises =
     example_env \<lparr> textToImage := (\<lambda>index req.
        if index = 1 then Inl (JsError ''503 Service Unavailable'') else Inr ''png bytes'') \<rparr>"

definition env_no_fal_key :: env where
  "env_no_fal_key = example_env \<lparr> FAL_KEY := None \<rparr>"

section \<open>Lemmas on the pure part\<close>

lemma ASPECT_RATIO_MAP_eq:
  "ASPECT_RATIO_MAP a =
     (if a = ''1:1'' then Tuple (1, 1) else if a = ''4:3'' then Tuple (4, 3)
      else if a = ''3:2'' then Tuple (3, 2) else if a = ''16:9'' then Tuple (16, 9)
      else if a = ''9:16'' then Tuple (9, 16)
      else if a \<in> set Object_prototype_keys then Inherited else Undefined)"
  by (simp add: ASPECT_RATIO_MAP_def)





lemma floor_67_6: "\<lfloor>67 / 6 :: rat\<rfloor> = 11"
  by (rule floor_unique) simp_all

lemma round_32_3: "round (32 / 3 :: rat) = 11"
  by (simp add: round_def floor_67_6)

lemma resolve_values:
  "resolveHuggingFaceDimensions ''16:9'' = Inr \<lparr> dimensions.width = 1024, height = 576 \<rparr>"
  "resolveHuggingFaceDimensions ''9:16'' = Inr \<lparr> dimensions.width = 576, height = 1024 \<rparr>"
  "resolveHuggingFaceDimensions ''1:1'' = Inr \<lparr> dimensions.width = 1024, height = 1024 \<rparr>"
  "resolveHuggingFaceDimensions ''4:3'' = Inr \<lparr> dimensions.width = 1024, height = 768 \<rparr>"
  "resolveHuggingFaceDimensions ''3:2'' = Inr \<lparr> dimensions.width = 1024, height = 704 \<rparr>"
  by (simp_all add: resolveHuggingFaceDimensions_def ASPECT_RATIO_MAP_eq
        HUGGINGFACE_BASE_SIZE_def roundToMultiple_def round_32_3)

lemma resolve_valid:
  "aspectRatioValidator a \<Longrightarrow> resolveHuggingFaceDimensions a = Inr (resolved a)"
  by (auto simp: aspectRatioValidator_def resolved_def resolve_values)

section \<open>Lemmas on the loop and on \<open>generate\<close>\<close>

lemma clamp_cases:
  "Math_min (Fin 4) (Math_max (Fin 1) x) =
     (case x of Fin q \<Rightarrow> Fin (min 4 (max 1 q)) | PosInf \<Rightarrow> Fin 4 | NegInf \<Rightarrow> Fin 1 | NaN \<Rightarrow> NaN)"
  by (cases x) (auto simp: Math_min_def Math_max_def)

lemma clamped_not_PosInf: "clamped args \<noteq> PosInf"
  by (simp add: clamped_def clamp_cases split: option.splits number.splits)

lemma less_iterations: "n \<noteq> PosInf \<Longrightarrow> number_less (Fin (of_nat i)) n = (i < iterations n)"
  by (cases n) (simp_all add: iterations_def zless_nat_eq_int_zless less_ceiling_iff)

lemma hf_loop_collect:
  "n \<noteq> PosInf \<Longrightarrow>
   hf_loop e req n i urls = Some (collect (map (hf_iteration e req) [i ..< iterations n]) urls)"
proof (induction "iterations n - i" arbitrary: i urls)
  case 0
  then show ?case by (subst hf_loop.simps) (simp add: less_iterations)
next
  case (Suc k)
  then have lt: "i < iterations n" by simp
  from Suc have k: "k = iterations n - Suc i" by simp
  show ?case
    by (subst hf_loop.simps)
       (simp add: less_iterations Suc.prems lt upt_conv_Cons Suc.hyps(1)[OF k Suc.prems]
             split: sum.splits)
qed

lemma create_valid:
  "create_args_valid a \<Longrightarrow> create a d = (Inr (length d), d @ [inserted a])"
  by (simp add: create_def)

lemma update_last:
  "image_id a = length d \<Longrightarrow> update a (d @ [x]) = (Inr (), d @ [patch x a])"
  by (simp add: update_def)

lemma normalizeProvider_valid: "providerValidator (normalizeProvider p)"
  by (simp add: normalizeProvider_def providerValidator_def)

lemma generate_try_hf:
  "prov = ''huggingface'' \<Longrightarrow> generate_args.provider args = Some ''huggingface'' \<Longrightarrow>
   aspectRatioValidator (generate_args.aspectRatio args) \<Longrightarrow>
   n = clamped args \<Longrightarrow> image.requestId q = None \<Longrightarrow>
   generate_try e args prov n r f (length d) (d @ [q]) =
     Some (case attempt e args of
             Inl t \<Rightarrow> (Inl t, d @ [q])
           | Inr (urls, rid) \<Rightarrow>
               (Inr \<lparr> result_id = length d, imageUrls = urls, requestId = rid \<rparr>,
                d @ [q \<lparr> image.status := ''complete'', image.imageUrls := Some urls,
                          image.requestId := rid, image.updatedAt := Date_now_patch e \<rparr>]))"
  by (simp add: generate_try_def attempt_def hf_loop_collect clamped_not_PosInf Let_def
        update_last patch_def hf_answers_def hf_req_def resolve_valid split: sum.splits)

lemma generate_try_fal:
  "prov \<noteq> ''huggingface'' \<Longrightarrow> generate_args.provider args \<noteq> Some ''huggingface'' \<Longrightarrow>
   n = clamped args \<Longrightarrow> image.requestId q = None \<Longrightarrow>
   r = generate_args.resolution args \<Longrightarrow> f = generate_args.outputFormat args \<Longrightarrow>
   generate_try e args prov n r f (length d) (d @ [q]) =
     Some (case attempt e args of
             Inl t \<Rightarrow> (Inl t, d @ [q])
           | Inr (urls, rid) \<Rightarrow>
               (Inr \<lparr> result_id = length d, imageUrls = urls, requestId = rid \<rparr>,
                d @ [q \<lparr> image.status := ''complete'', image.imageUrls := Some urls,
                          image.requestId := rid, image.updatedAt := Date_now_patch e \<rparr>]))"
  by (simp add: generate_try_def attempt_def Let_def update_last patch_def fal_in_def
        fal_urls_def split: sum.splits option.splits)

lemma generate_eq:
  assumes "generate_args_valid args"
  shows "generate e args d =
     Some (case attempt e args of
             Inl t \<Rightarrow> (Inl t, d @ [failed_doc e args t])
           | Inr (urls, rid) \<Rightarrow>
               (Inr \<lparr> result_id = length d, imageUrls = urls, requestId = rid \<rparr>,
                d @ [complete_doc e args urls rid]))"
proof (cases "generate_args.provider args = Some ''huggingface''")
  case True
  with assms show ?thesis
    by (simp add: generate_def generate_handler_def generate_args_valid_def Let_def
          normalizeProvider_def create_valid create_args_valid_def providerValidator_def
          resolutionValidator_def outputFormatValidator_def
          generate_try_hf clamped_def[symmetric] update_last patch_def
          failed_doc_def complete_doc_def queued_def inserted_def
          split: sum.splits prod.splits)
next
  case False
  with assms show ?thesis
    by (simp add: generate_def generate_handler_def generate_args_valid_def Let_def
          normalizeProvider_def create_valid create_args_valid_def providerValidator_def
          generate_try_fal clamped_def[symmetric] update_last patch_def
          failed_doc_def complete_doc_def queued_def inserted_def
          split: sum.splits prod.splits)
qed

lemmas evals = attempt_def complete_doc_def failed_doc_def queued_def clamped_def clamp_cases
  fal_in_def fal_urls_def filter_Boolean_def normalizeProvider_def FAL_MODEL_NAME_def
  HUGGINGFACE_MODEL_NAME_def hf_answers_def hf_req_def iterations_def hf_iteration_def
  resolved_def resolve_values

lemma example_args_valid: "generate_args_valid example_args"
  by (simp add: generate_args_valid_def example_args_def aspectRatioValidator_def
        resolutionValidator_def outputFormatValidator_def providerValidator_def)

lemma args_fal_valid: "generate_args_valid args_fal"
  by (simp add: generate_args_valid_def args_fal_def aspectRatioValidator_def
        resolutionValidator_def outputFormatValidator_def providerValidator_def)

lemma clamped_in_range:
  "generate_args.numImages args \<noteq> Some NaN \<Longrightarrow>
   number_le (Fin 1) (clamped args) \<and> number_le (clamped args) (Fin 4)"
  by (auto simp: clamped_def clamp_cases number_le_def split: option.splits number.splits)

lemma clamp_examples:
  "Math_min (Fin 4) (Math_max (Fin 1) (Fin 0)) = Fin 1"
  "Math_min (Fin 4) (Math_max (Fin 1) (Fin 7)) = Fin 4"
  "Math_min (Fin 4) (Math_max (Fin 1) (Fin 3)) = Fin 3"
  by (simp_all add: clamp_cases)

lemma collect_Inr: "collect (map Inr us) acc = Inr (acc @ filter_Boolean us)"
  by (induction us arbitrary: acc) (simp_all add: filter_Boolean_def)

lemma collect_Inl: "collect (map Inr us @ Inl t # rest) acc = Inl t"
  by (induction us arbitrary: acc) simp_all

lemma error_message_nonempty: "t \<noteq> JsError [] \<Longrightarrow> error_message t \<noteq> []"
  by (cases t) simp_all

lemma generate_record:
  assumes "generate_args_valid args"
  shows "\<exists>r q. generate e args d = Some (r, d @ [q]) \<and>
           image.prompt q = generate_args.prompt args \<and>
           image.provider q = normalizeProvider (generate_args.provider args) \<and>
           image.aspectRatio q = generate_args.aspectRatio args \<and>
           image.resolution q = (if generate_args.provider args = Some ''huggingface''
                                 then ''1K'' else generate_args.resolution args) \<and>
           image.outputFormat q = (if generate_args.provider args = Some ''huggingface''
                                   then ''png'' else generate_args.outputFormat args) \<and>
           image.numImages q = clamped args \<and>
           image.createdAt q = Date_now_requested e"
  using assms
  by (simp add: generate_eq failed_doc_def complete_doc_def queued_def
        split: sum.splits prod.splits)

lemma generate_returns:
  "\<exists>r d'. generate e args d = Some (r, d') \<and> take (length d) d' = d"
proof (cases "generate_args_valid args")
  case True
  then show ?thesis by (simp add: generate_eq split: sum.splits prod.splits)
next
  case False
  then show ?thesis by (simp add: generate_def)
qed

lemma generate_imageUrls_iff_complete:
  assumes "generate_args_valid args"
  shows "\<exists>r q. generate e args d = Some (r, d @ [q]) \<and>
           (image.imageUrls q \<noteq> None \<longleftrightarrow> image.status q = ''complete'') \<and>
           (image.error q \<noteq> None \<longleftrightarrow> image.status q = ''failed'') \<and>
           (image.status q = ''complete'' \<or> image.status q = ''failed'') \<and>
           (generate_args.provider args = Some ''huggingface'' \<longrightarrow>
              image.imageUrls q \<noteq> Some [])"
  using assms
  by (auto simp add: generate_eq failed_doc_def complete_doc_def queued_def attempt_def
        split: sum.splits prod.splits if_splits)

section \<open>Lemmas on the table\<close>

lemma store_take_nat: "store_take (Fin (of_nat n)) xs = Inr (take n xs)"
  by (simp add: store_take_def)

lemma by_created_at_desc_sorted:
  "sorted_wrt (\<lambda>a b. image.createdAt b \<le> image.createdAt a) (by_created_at_desc d)"
  using sorted_sort_key [of image.createdAt d]
  by (simp add: by_created_at_desc_def sorted_wrt_rev sorted_map)

lemma by_created_at_desc_mset: "mset (by_created_at_desc d) = mset d"
  by (simp add: by_created_at_desc_def)

lemma update_only_patches:
  "update a d = (r, d') \<Longrightarrow>
   length d' = length d \<and>
   (\<forall>i < length d.
      image.prompt (d' ! i) = image.prompt (d ! i) \<and>
      image.model (d' ! i) = image.model (d ! i) \<and>
      image.provider (d' ! i) = image.provider (d ! i) \<and>
      image.aspectRatio (d' ! i) = image.aspectRatio (d ! i) \<and>
      image.resolution (d' ! i) = image.resolution (d ! i) \<and>
      image.outputFormat (d' ! i) = image.outputFormat (d ! i) \<and>
      image.numImages (d' ! i) = image.numImages (d ! i) \<and>
      image.createdAt (d' ! i) = image.createdAt (d ! i) \<and>
      (i \<noteq> image_id a \<longrightarrow> d' ! i = d ! i))"
  by (auto simp: update_def patch_def nth_list_update split: if_splits)

section \<open>Results\<close>




text \<open>
  C1, evaluated where it fails. The fal provider answers a request for two images with
  two entries that carry no usable URL. \<open>filter(Boolean)\<close> drops both, and the call
  returns normally: the document is patched to \<open>complete\<close> with the empty list as its
  \<open>imageUrls\<close>. The Hugging Face path throws on an empty list; the fal path has no such
  check (lemma \<open>generate_imageUrls_iff_complete\<close> gives what holds on both paths).
\<close>

theorem generate_fal_complete_without_urls:
  "generate_args_valid args_fal \<and>
   generate env_fal_no_urls args_fal [] =
     Some (Inr \<lparr> result_id = 0, imageUrls = [], requestId = Some ''req-2'' \<rparr>,
           [\<lparr> image.prompt = ''a red fox'', model = ''fal-ai/nano-banana-pro'',
              provider = ''fal'', aspectRatio = ''4:3'', resolution = ''2K'',
              outputFormat = ''jpeg'', numImages = Fin 2, status = ''complete'',
              createdAt = 1000, updatedAt = 2000,
              imageUrls = Some [], requestId = Some ''req-2'', error = None \<rparr>])"
proof -
  have "generate env_fal_no_urls args_fal [] =
     Some (Inr \<lparr> result_id = 0, imageUrls = [], requestId = Some ''req-2'' \<rparr>,
           [\<lparr> image.prompt = ''a red fox'', model = ''fal-ai/nano-banana-pro'',
              provider = ''fal'', aspectRatio = ''4:3'', resolution = ''2K'',
              outputFormat = ''jpeg'', numImages = Fin 2, status = ''complete'',
              createdAt = 1000, updatedAt = 2000,
              imageUrls = Some [], requestId = Some ''req-2'', error = None \<rparr>])"
    unfolding generate_eq [OF args_fal_valid]
    by (simp add: evals args_fal_def env_fal_no_urls_def example_env_def)
  with args_fal_valid show ?thesis by simp
qed

text \<open>
  C2, the claim as stated, refuted. \<open>normalizeProvider\<close> maps the string \<open>unknown\<close> to
  \<open>fal\<close>, but a call of \<open>generate\<close> with that provider is refused by the argument
  validator, while the same call without a provider succeeds on the fal path.
\<close>

theorem generate_unknown_provider_rejected:
  "normalizeProvider (Some ''unknown'') = ''fal'' \<and>
   generate example_env (args_fal \<lparr> generate_args.provider := Some ''unknown'' \<rparr>) [] =
     Some (Inl ArgumentValidationError, []) \<and>
   generate example_env (args_fal \<lparr> generate_args.provider := None \<rparr>) [] =
     Some (Inr \<lparr> result_id = 0, imageUrls = [''https://fal.example/a''],
                  requestId = Some ''req-1'' \<rparr>,
           [\<lparr> image.prompt = ''a red fox'', model = ''fal-ai/nano-banana-pro'',
              provider = ''fal'', aspectRatio = ''4:3'', resolution = ''2K'',
              outputFormat = ''jpeg'', numImages = Fin 2, status = ''complete'',
              createdAt = 1000, updatedAt = 2000,
              imageUrls = Some [''https://fal.example/a''], requestId = Some ''req-1'',
              error = None \<rparr>])"
proof -
  have a: "normalizeProvider (Some ''unknown'') = ''fal''"
    by (simp add: normalizeProvider_def)
  have b: "generate example_env (args_fal \<lparr> generate_args.provider := Some ''unknown'' \<rparr>) [] =
     Some (Inl ArgumentValidationError, [])"
    by (simp add: generate_def generate_args_valid_def providerValidator_def)
  have v: "generate_args_valid (args_fal \<lparr> generate_args.provider := None \<rparr>)"
    using args_fal_valid by (simp add: generate_args_valid_def)
  have c: "generate example_env (args_fal \<lparr> generate_args.provider := None \<rparr>) [] =
     Some (Inr \<lparr> result_id = 0, imageUrls = [''https://fal.example/a''],
                  requestId = Some ''req-1'' \<rparr>,
           [\<lparr> image.prompt = ''a red fox'', model = ''fal-ai/nano-banana-pro'',
              provider = ''fal'', aspectRatio = ''4:3'', resolution = ''2K'',
              outputFormat = ''jpeg'', numImages = Fin 2, status = ''complete'',
              createdAt = 1000, updatedAt = 2000,
              imageUrls = Some [''https://fal.example/a''], requestId = Some ''req-1'',
              error = None \<rparr>])"
    unfolding generate_eq [OF v]
    by (simp add: evals args_fal_def example_env_def)
  from a b c show ?thesis by blast
qed

text \<open>
  C2, amended. \<open>normalizeProvider\<close> resolves an absent value and every string other than
  \<open>huggingface\<close> to \<open>fal\<close>. In \<open>generate\<close>, a provider string other than \<open>fal\<close> and
  \<open>huggingface\<close> is refused by the argument validator, and the table is left as it was;
  a call with no provider does exactly what the same call with provider \<open>fal\<close> does, and
  its document has provider \<open>fal\<close>.
\<close>

theorem provider_resolution:
  "(p \<noteq> Some ''huggingface'' \<longrightarrow> normalizeProvider p = ''fal'') \<and>
   normalizeProvider (Some ''huggingface'') = ''huggingface'' \<and>
   (generate_args.provider args = Some s \<and> s \<noteq> ''fal'' \<and> s \<noteq> ''huggingface'' \<longrightarrow>
      generate e args d = Some (Inl ArgumentValidationError, d)) \<and>
   (generate_args_valid args \<and> generate_args.provider args = None \<longrightarrow>
      generate e args d = generate e (args \<lparr> generate_args.provider := Some ''fal'' \<rparr>) d \<and>
      (\<exists>r q. generate e args d = Some (r, d @ [q]) \<and> image.provider q = ''fal''))"
proof -
  have a: "p \<noteq> Some ''huggingface'' \<longrightarrow> normalizeProvider p = ''fal''"
    and a': "normalizeProvider (Some ''huggingface'') = ''huggingface''"
    by (simp_all add: normalizeProvider_def)
  have b: "generate_args.provider args = Some s \<and> s \<noteq> ''fal'' \<and> s \<noteq> ''huggingface'' \<longrightarrow>
      generate e args d = Some (Inl ArgumentValidationError, d)"
    by (simp add: generate_def generate_args_valid_def providerValidator_def)
  have c: "generate_args_valid args \<and> generate_args.provider args = None \<longrightarrow>
      generate e args d = generate e (args \<lparr> generate_args.provider := Some ''fal'' \<rparr>) d \<and>
      (\<exists>r q. generate e args d = Some (r, d @ [q]) \<and> image.provider q = ''fal'')"
  proof
    assume h: "generate_args_valid args \<and> generate_args.provider args = None"
    then have v': "generate_args_valid (args \<lparr> generate_args.provider := Some ''fal'' \<rparr>)"
      by (simp add: generate_args_valid_def providerValidator_def)
    from h have "generate e args d =
        generate e (args \<lparr> generate_args.provider := Some ''fal'' \<rparr>) d"
      unfolding generate_eq [OF v'] generate_eq [OF conjunct1 [OF h]]
      by (simp add: evals split: sum.splits prod.splits)
    moreover from generate_record [OF conjunct1 [OF h], of e d] h
    have "\<exists>r q. generate e args d = Some (r, d @ [q]) \<and> image.provider q = ''fal''"
      by (auto simp: normalizeProvider_def)
    ultimately show "generate e args d =
        generate e (args \<lparr> generate_args.provider := Some ''fal'' \<rparr>) d \<and>
      (\<exists>r q. generate e args d = Some (r, d @ [q]) \<and> image.provider q = ''fal'')"
      by blast
  qed
  from a a' b c show ?thesis by blast
qed

theorem provider_resolution_witness:
  "None \<noteq> Some ''huggingface'' \<and> normalizeProvider None = ''fal'' \<and>
   generate_args.provider (args_fal \<lparr> generate_args.provider := Some ''unknown'' \<rparr>) = Some ''unknown'' \<and>
   ''unknown'' \<noteq> ''fal'' \<and> ''unknown'' \<noteq> ''huggingface'' \<and>
   generate example_env (args_fal \<lparr> generate_args.provider := Some ''unknown'' \<rparr>) [] =
     Some (Inl ArgumentValidationError, []) \<and>
   generate_args_valid (args_fal \<lparr> generate_args.provider := None \<rparr>) \<and>
   generate example_env (args_fal \<lparr> generate_args.provider := None \<rparr>) [] =
     generate example_env args_fal []"
proof -
  have v: "generate_args_valid (args_fal \<lparr> generate_args.provider := None \<rparr>)"
    using args_fal_valid by (simp add: generate_args_valid_def)
  have same: "args_fal \<lparr> generate_args.provider := Some ''fal'' \<rparr> = args_fal"
    by (simp add: args_fal_def)
  from provider_resolution [of None "args_fal \<lparr> generate_args.provider := Some ''unknown'' \<rparr>"
      "''unknown''" example_env "[]"]
    provider_resolution [of None "args_fal \<lparr> generate_args.provider := None \<rparr>"
      "''unknown''" example_env "[]"] v same
  show ?thesis by simp
qed

text \<open>
  C4, the claim as stated, refuted. The fal provider throws an \<open>Error\<close> whose message is
  the empty string: the document is patched to \<open>failed\<close> and the same value is thrown
  again, but the error text stored is that empty message.
\<close>

theorem generate_failure_empty_message:
  "generate_args_valid args_fal \<and>
   generate env_fal_raises args_fal [] =
     Some (Inl (JsError []),
           [\<lparr> image.prompt = ''a red fox'', model = ''fal-ai/nano-banana-pro'',
              provider = ''fal'', aspectRatio = ''4:3'', resolution = ''2K'',
              outputFormat = ''jpeg'', numImages = Fin 2, status = ''failed'',
              createdAt = 1000, updatedAt = 2000,
              imageUrls = None, requestId = None, error = Some [] \<rparr>])"
proof -
  have "generate env_fal_raises args_fal [] =
     Some (Inl (JsError []),
           [\<lparr> image.prompt = ''a red fox'', model = ''fal-ai/nano-banana-pro'',
              provider = ''fal'', aspectRatio = ''4:3'', resolution = ''2K'',
              outputFormat = ''jpeg'', numImages = Fin 2, status = ''failed'',
              createdAt = 1000, updatedAt = 2000,
              imageUrls = None, requestId = None, error = Some [] \<rparr>])"
    unfolding generate_eq [OF args_fal_valid]
    by (simp add: evals args_fal_def env_fal_raises_def example_env_def)
  with args_fal_valid show ?thesis by simp
qed

text \<open>
  C4, amended. For arguments that pass the validators: whenever \<open>generate\<close> ends by
  throwing a value \<open>t\<close>, the table is the old table followed by the document of this
  call, with status \<open>failed\<close>, with the message of \<open>t\<close> as its error (the fixed text
  when \<open>t\<close> is not an \<open>Error\<close>), with the reading of the clock at the patch as
  \<open>updatedAt\<close>, and with no \<open>imageUrls\<close>; the message is non-empty unless \<open>t\<close> is an
  \<open>Error\<close> with an empty message. A missing secret, a call of the Hugging Face loop that
  throws, an empty Hugging Face result and a fal call that throws each end \<open>generate\<close>
  this way, the first and third with their own fixed messages.
\<close>

theorem generate_failure_reconciled:
  assumes "generate_args_valid args"
  shows
  "(generate e args d = Some (Inl t, d') \<longrightarrow>
      (\<exists>q. d' = d @ [q] \<and> image.status q = ''failed'' \<and>
           image.error q = Some (error_message t) \<and>
           image.updatedAt q = Date_now_patch e \<and> image.imageUrls q = None) \<and>
      (t \<noteq> JsError [] \<longrightarrow> error_message t \<noteq> [])) \<and>
   (generate_args.provider args = Some ''huggingface'' \<and> \<not> truthy (HF_TOKEN e) \<longrightarrow>
      (\<exists>d'. generate e args d =
             Some (Inl (JsError ''Missing HF_TOKEN environment variable.''), d'))) \<and>
   (generate_args.provider args = Some ''huggingface'' \<and> truthy (HF_TOKEN e) \<and>
    hf_answers e args = map Inr us @ Inl t # rest \<longrightarrow>
      (\<exists>d'. generate e args d = Some (Inl t, d'))) \<and>
   (generate_args.provider args = Some ''huggingface'' \<and> truthy (HF_TOKEN e) \<and>
    hf_answers e args = map Inr us \<and> filter_Boolean us = [] \<longrightarrow>
      (\<exists>d'. generate e args d =
             Some (Inl (JsError ''Hugging Face returned no images.''), d'))) \<and>
   (generate_args.provider args \<noteq> Some ''huggingface'' \<and> \<not> truthy (FAL_KEY e) \<longrightarrow>
      (\<exists>d'. generate e args d =
             Some (Inl (JsError ''Missing FAL_KEY environment variable.''), d'))) \<and>
   (generate_args.provider args \<noteq> Some ''huggingface'' \<and> truthy (FAL_KEY e) \<and>
    fal_subscribe e (fal_in args) = Inl t \<longrightarrow>
      (\<exists>d'. generate e args d = Some (Inl t, d')))"
proof -
  note g = generate_eq [OF assms, of e d]
  have 1: "generate e args d = Some (Inl t, d') \<longrightarrow>
      (\<exists>q. d' = d @ [q] \<and> image.status q = ''failed'' \<and>
           image.error q = Some (error_message t) \<and>
           image.updatedAt q = Date_now_patch e \<and> image.imageUrls q = None) \<and>
      (t \<noteq> JsError [] \<longrightarrow> error_message t \<noteq> [])"
    unfolding g
    by (auto simp: failed_doc_def queued_def error_message_nonempty split: sum.splits prod.splits)
  have 2: "generate_args.provider args = Some ''huggingface'' \<and> \<not> truthy (HF_TOKEN e) \<longrightarrow>
      (\<exists>d'. generate e args d =
             Some (Inl (JsError ''Missing HF_TOKEN environment variable.''), d'))"
    unfolding g by (simp add: attempt_def)
  have 3: "generate_args.provider args = Some ''huggingface'' \<and> truthy (HF_TOKEN e) \<and>
    hf_answers e args = map Inr us @ Inl t # rest \<longrightarrow>
      (\<exists>d'. generate e args d = Some (Inl t, d'))"
    unfolding g by (simp add: attempt_def collect_Inl)
  have 4: "generate_args.provider args = Some ''huggingface'' \<and> truthy (HF_TOKEN e) \<and>
    hf_answers e args = map Inr us \<and> filter_Boolean us = [] \<longrightarrow>
      (\<exists>d'. generate e args d =
             Some (Inl (JsError ''Hugging Face returned no images.''), d'))"
    unfolding g by (simp add: attempt_def collect_Inr)
  have 5: "generate_args.provider args \<noteq> Some ''huggingface'' \<and> \<not> truthy (FAL_KEY e) \<longrightarrow>
      (\<exists>d'. generate e args d =
             Some (Inl (JsError ''Missing FAL_KEY environment variable.''), d'))"
    unfolding g by (simp add: attempt_def)
  have 6: "generate_args.provider args \<noteq> Some ''huggingface'' \<and> truthy (FAL_KEY e) \<and>
    fal_subscribe e (fal_in args) = Inl t \<longrightarrow>
      (\<exists>d'. generate e args d = Some (Inl t, d'))"
    unfolding g by (simp add: attempt_def)
  from 1 2 3 4 5 6 show ?thesis by blast
qed

theorem generate_failure_reconciled_witness:
  "generate_args_valid args_fal \<and>
   generate_args.provider args_fal \<noteq> Some ''huggingface'' \<and>
   \<not> truthy (FAL_KEY env_no_fal_key) \<and>
   JsError ''Missing FAL_KEY environment variable.'' \<noteq> JsError [] \<and>
   (\<exists>q. generate env_no_fal_key args_fal [] =
           Some (Inl (JsError ''Missing FAL_KEY environment variable.''), [q]) \<and>
         image.status q = ''failed'' \<and>
         image.error q = Some ''Missing FAL_KEY environment variable.'' \<and>
         image.updatedAt q = 2000)"
proof -
  let ?t = "JsError ''Missing FAL_KEY environment variable.''"
  have p: "generate_args.provider args_fal \<noteq> Some ''huggingface''"
    by (simp add: args_fal_def)
  have k: "\<not> truthy (FAL_KEY env_no_fal_key)"
    by (simp add: env_no_fal_key_def)
  note th = generate_failure_reconciled [OF args_fal_valid, of env_no_fal_key "[]" ?t]
  from th p k obtain d' where g: "generate env_no_fal_key args_fal [] = Some (Inl ?t, d')"
    by blast
  with th [of d'] obtain q where "d' = [] @ [q]" "image.status q = ''failed''"
    "image.error q = Some (error_message ?t)" "image.updatedAt q = Date_now_patch env_no_fal_key"
    by blast
  with g p k args_fal_valid show ?thesis
    by (simp add: env_no_fal_key_def example_env_def)
qed

text \<open>
  C5, the claim as stated, refuted. Four images are requested on the Hugging Face path.
  The first iteration yields a URL, the second call of \<open>textToImage\<close> throws: the request
  fails with the value thrown, although a URL had been collected.
\<close>

theorem generate_huggingface_raise_fails:
  "generate_args_valid example_args \<and>
   hf_iteration env_hf_raises
     \<lparr> hf_request.model = ''ByteDance/SDXL-Lightning'', inputs = ''a red fox'',
       width = 1024, height = 576 \<rparr> 0 = Inr (Some ''https://store.example/0'') \<and>
   generate env_hf_raises example_args [] =
     Some (Inl (JsError ''503 Service Unavailable''),
           [\<lparr> image.prompt = ''a red fox'', model = ''ByteDance/SDXL-Lightning'',
              provider = ''huggingface'', aspectRatio = ''16:9'', resolution = ''1K'',
              outputFormat = ''png'', numImages = Fin 4, status = ''failed'',
              createdAt = 1000, updatedAt = 2000,
              imageUrls = None, requestId = None,
              error = Some ''503 Service Unavailable'' \<rparr>])"
proof -
  have a: "hf_iteration env_hf_raises
     \<lparr> hf_request.model = ''ByteDance/SDXL-Lightning'', inputs = ''a red fox'',
       width = 1024, height = 576 \<rparr> 0 = Inr (Some ''https://store.example/0'')"
    by (simp add: hf_iteration_def env_hf_raises_def example_env_def)
  have n: "[0..<4] = [0, 1, 2, 3]" by (simp add: upt_rec)
  have b: "generate env_hf_raises example_args [] =
     Some (Inl (JsError ''503 Service Unavailable''),
           [\<lparr> image.prompt = ''a red fox'', model = ''ByteDance/SDXL-Lightning'',
              provider = ''huggingface'', aspectRatio = ''16:9'', resolution = ''1K'',
              outputFormat = ''png'', numImages = Fin 4, status = ''failed'',
              createdAt = 1000, updatedAt = 2000,
              imageUrls = None, requestId = None,
              error = Some ''503 Service Unavailable'' \<rparr>])"
    unfolding generate_eq [OF example_args_valid]
    by (simp add: evals n example_args_def env_hf_raises_def example_env_def)
  from example_args_valid a b show ?thesis by blast
qed

text \<open>
  C5, amended. On the Hugging Face path, with the token set and valid arguments, let the
  answers of the iterations be taken in call order. When no iteration throws, the
  iterations whose URL is \<open>null\<close> or empty are dropped and the others kept in order: if
  a URL remains, the call returns these URLs and the document is \<open>complete\<close> with them;
  if none remains, the call throws \<open>Hugging Face returned no images.\<close> and the document
  is \<open>failed\<close>. When an iteration throws, the call throws that value and the document is
  \<open>failed\<close>, whatever the earlier iterations yielded.
\<close>

theorem generate_huggingface_partial:
  assumes "generate_args_valid args"
    and "generate_args.provider args = Some ''huggingface''"
    and "truthy (HF_TOKEN e)"
  shows
  "(hf_answers e args = map Inr us \<and> filter_Boolean us \<noteq> [] \<longrightarrow>
      (\<exists>q. generate e args d =
              Some (Inr \<lparr> result_id = length d, imageUrls = filter_Boolean us,
                           requestId = None \<rparr>, d @ [q]) \<and>
            image.status q = ''complete'' \<and>
            image.imageUrls q = Some (filter_Boolean us))) \<and>
   (hf_answers e args = map Inr us \<and> filter_Boolean us = [] \<longrightarrow>
      (\<exists>q. generate e args d =
              Some (Inl (JsError ''Hugging Face returned no images.''), d @ [q]) \<and>
            image.status q = ''failed'')) \<and>
   (hf_answers e args = map Inr us @ Inl t # rest \<longrightarrow>
      (\<exists>q. generate e args d = Some (Inl t, d @ [q]) \<and> image.status q = ''failed''))"
  unfolding generate_eq [OF assms(1)]
  using assms(2,3)
  by (simp add: attempt_def collect_Inr collect_Inl complete_doc_def failed_doc_def)

theorem generate_huggingface_partial_witness:
  "generate_args_valid example_args \<and>
   generate_args.provider example_args = Some ''huggingface'' \<and>
   truthy (HF_TOKEN example_env) \<and>
   hf_answers example_env example_args =
     map Inr [Some ''https://store.example/0'', None, Some ''https://store.example/2'', None] \<and>
   (\<exists>q. generate example_env example_args [] =
           Some (Inr \<lparr> result_id = 0,
                        imageUrls = [''https://store.example/0'', ''https://store.example/2''],
                        requestId = None \<rparr>, [q]) \<and>
         image.status q = ''complete'' \<and>
         image.imageUrls q = Some [''https://store.example/0'', ''https://store.example/2''])"
proof -
  let ?us = "[Some ''https://store.example/0'', None, Some ''https://store.example/2'', None]"
  have p: "generate_args.provider example_args = Some ''huggingface''"
    by (simp add: example_args_def)
  have k: "truthy (HF_TOKEN example_env)" by (simp add: example_env_def)
  have n: "[0..<4] = [0, 1, 2, 3]" by (simp add: upt_rec)
  have a: "hf_answers example_env example_args = map Inr ?us"
    by (simp add: hf_answers_def iterations_def clamped_def clamp_cases hf_iteration_def n
          example_args_def example_env_def)
  have f: "filter_Boolean ?us = [''https://store.example/0'', ''https://store.example/2'']"
    by (simp add: filter_Boolean_def)
  from generate_huggingface_partial [OF example_args_valid p k, of ?us "[]"] a f
    example_args_valid p k
  show ?thesis by simp
qed

text \<open>
  C6. For valid arguments with provider \<open>huggingface\<close>, whatever resolution and output
  format the caller gave, \<open>generate\<close> returns or throws with the table extended by one
  document, whose provider is \<open>huggingface\<close>, whose resolution is \<open>1K\<close> and whose
  output format is \<open>png\<close>.
\<close>

theorem generate_huggingface_override:
  assumes "generate_args_valid args"
    and "generate_args.provider args = Some ''huggingface''"
  shows "\<exists>r q. generate e args d = Some (r, d @ [q]) \<and>
           image.provider q = ''huggingface'' \<and>
           image.resolution q = ''1K'' \<and> image.outputFormat q = ''png''"
  using generate_record [OF assms(1), of e d] assms(2)
  by (auto simp: normalizeProvider_def)

theorem generate_huggingface_override_witness:
  "generate_args_valid example_args \<and>
   generate_args.provider example_args = Some ''huggingface'' \<and>
   generate_args.resolution example_args = ''4K'' \<and>
   generate_args.outputFormat example_args = ''webp'' \<and>
   (\<exists>r q. generate example_env example_args [] = Some (r, [q]) \<and>
      image.resolution q = ''1K'' \<and> image.outputFormat q = ''png'')"
proof -
  have p: "generate_args.provider example_args = Some ''huggingface''"
    by (simp add: example_args_def)
  from generate_huggingface_override [OF example_args_valid p, of example_env "[]"]
  show ?thesis using example_args_valid by (auto simp: example_args_def)
qed

text \<open>
  C7, evaluated where it fails. With \<open>numImages = NaN\<close>, which \<open>v.number()\<close> admits,
  \<open>Math.max(1, NaN)\<close> and then \<open>Math.min(4, NaN)\<close> are \<open>NaN\<close>: the count sent to the
  provider and stored in the document is \<open>NaN\<close>, which is neither at least 1 nor at most
  4. For every other number the stored count is in the range (lemma \<open>clamped_in_range\<close>),
  and 0, 7 and 3 become 1, 4 and 3 (lemma \<open>clamp_examples\<close>).
\<close>

theorem generate_numImages_NaN:
  "generate_args_valid args_NaN \<and>
   generate example_env args_NaN [] =
     Some (Inr \<lparr> result_id = 0, imageUrls = [''https://fal.example/a''],
                  requestId = Some ''req-1'' \<rparr>,
           [\<lparr> image.prompt = ''a red fox'', model = ''fal-ai/nano-banana-pro'',
              provider = ''fal'', aspectRatio = ''1:1'', resolution = ''1K'',
              outputFormat = ''png'', numImages = NaN, status = ''complete'',
              createdAt = 1000, updatedAt = 2000,
              imageUrls = Some [''https://fal.example/a''], requestId = Some ''req-1'',
              error = None \<rparr>]) \<and>
   \<not> number_le (Fin 1) NaN \<and> \<not> number_le NaN (Fin 4)"
proof -
  have v: "generate_args_valid args_NaN"
    by (simp add: generate_args_valid_def args_NaN_def aspectRatioValidator_def
          resolutionValidator_def outputFormatValidator_def)
  have "generate example_env args_NaN [] =
     Some (Inr \<lparr> result_id = 0, imageUrls = [''https://fal.example/a''],
                  requestId = Some ''req-1'' \<rparr>,
           [\<lparr> image.prompt = ''a red fox'', model = ''fal-ai/nano-banana-pro'',
              provider = ''fal'', aspectRatio = ''1:1'', resolution = ''1K'',
              outputFormat = ''png'', numImages = NaN, status = ''complete'',
              createdAt = 1000, updatedAt = 2000,
              imageUrls = Some [''https://fal.example/a''], requestId = Some ''req-1'',
              error = None \<rparr>])"
    unfolding generate_eq [OF v] by (simp add: evals args_NaN_def example_env_def)
  with v show ?thesis by (simp add: number_le_def)
qed

text \<open>
  C8. For every table and every limit \<open>n\<close> that is a count, \<open>list\<close> returns at most \<open>n\<close>
  documents (exactly the smaller of \<open>n\<close> and the size of the table), in descending order
  of \<open>createdAt\<close>; together with the documents left out they are the documents of the
  table, and no document left out is newer than a document returned. Without a limit the
  query is the query with limit 24. The table after the query is the table before it.
\<close>

theorem list_query_spec:
  "list_query None d = list_query (Some (Fin 24)) d \<and>
   snd (list_query limit d) = d \<and>
   (\<exists>rs rest.
      list_query (Some (Fin (of_nat n))) d = (Inr rs, d) \<and>
      length rs \<le> n \<and> length rs = min n (length d) \<and>
      sorted_wrt (\<lambda>a b. image.createdAt b \<le> image.createdAt a) rs \<and>
      mset (rs @ rest) = mset d \<and>
      (\<forall>x \<in> set rs. \<forall>y \<in> set rest. image.createdAt y \<le> image.createdAt x))"
proof -
  let ?s = "by_created_at_desc d"
  let ?rs = "take n ?s" and ?rest = "drop n ?s"
  have q: "list_query (Some (Fin (of_nat n))) d = (Inr ?rs, d)"
    by (simp add: list_query_def store_take_nat)
  have len: "length ?rs = min n (length d)"
    using arg_cong [OF by_created_at_desc_mset [of d], of size] by simp
  have srt: "sorted_wrt (\<lambda>a b. image.createdAt b \<le> image.createdAt a) ?rs"
    using by_created_at_desc_sorted by (rule sorted_wrt_take)
  have perm: "mset (?rs @ ?rest) = mset d"
    by (simp add: by_created_at_desc_mset)
  have "sorted_wrt (\<lambda>a b. image.createdAt b \<le> image.createdAt a) (?rs @ ?rest)"
    using by_created_at_desc_sorted [of d] by simp
  then have older: "\<forall>x \<in> set ?rs. \<forall>y \<in> set ?rest. image.createdAt y \<le> image.createdAt x"
    by (simp only: sorted_wrt_append) blast
  have dflt: "list_query None d = list_query (Some (Fin 24)) d"
    by (simp add: list_query_def)
  have ro: "snd (list_query limit d) = d"
    by (simp add: list_query_def Let_def)
  from q len srt perm older have
    "\<exists>rs rest.
      list_query (Some (Fin (of_nat n))) d = (Inr rs, d) \<and>
      length rs \<le> n \<and> length rs = min n (length d) \<and>
      sorted_wrt (\<lambda>a b. image.createdAt b \<le> image.createdAt a) rs \<and>
      mset (rs @ rest) = mset d \<and>
      (\<forall>x \<in> set rs. \<forall>y \<in> set rest. image.createdAt y \<le> image.createdAt x)"
    by (intro exI [of _ ?rs] exI [of _ ?rest]) simp
  with dflt ro show ?thesis by blast
qed

theorem list_query_spec_witness:
  "list_query (Some (Fin (of_nat 2))) example_table =
     (Inr [example_doc 50, example_doc 40], example_table) \<and>
   example_doc 50 \<in> set [example_doc 50, example_doc 40] \<and>
   image.createdAt (example_doc 40) \<le> image.createdAt (example_doc 50) \<and>
   length example_table = 5"
proof -
  from list_query_spec [of example_table None 2]
  obtain rs where "list_query (Some (Fin (of_nat 2))) example_table = (Inr rs, example_table)"
    and "sorted_wrt (\<lambda>a b. image.createdAt b \<le> image.createdAt a) rs"
    by blast
  moreover have "list_query (Some (Fin (of_nat 2))) example_table =
     (Inr [example_doc 50, example_doc 40], example_table)"
    by (simp add: list_query_def store_take_def by_created_at_desc_def example_table_def
          example_doc_def)
  ultimately show ?thesis by (simp add: example_table_def)
qed

text \<open>
  C9. \<open>update\<close> keeps the number of documents, leaves every document other than the
  patched one as it is, and leaves prompt, model, provider, aspect ratio, resolution,
  output format, image count and \<open>createdAt\<close> of every document unchanged. \<open>create\<close>,
  \<open>list\<close> and \<open>generate\<close> leave every document already in the table as it is.
\<close>

theorem update_frame:
  "(\<forall>r d'. update a d = (r, d') \<longrightarrow>
      length d' = length d \<and>
      (\<forall>i < length d.
         image.prompt (d' ! i) = image.prompt (d ! i) \<and>
         image.model (d' ! i) = image.model (d ! i) \<and>
         image.provider (d' ! i) = image.provider (d ! i) \<and>
         image.aspectRatio (d' ! i) = image.aspectRatio (d ! i) \<and>
         image.resolution (d' ! i) = image.resolution (d ! i) \<and>
         image.outputFormat (d' ! i) = image.outputFormat (d ! i) \<and>
         image.numImages (d' ! i) = image.numImages (d ! i) \<and>
         image.createdAt (d' ! i) = image.createdAt (d ! i) \<and>
         (i \<noteq> image_id a \<longrightarrow> d' ! i = d ! i))) \<and>
   take (length d) (snd (create c d)) = d \<and>
   snd (list_query limit d) = d \<and>
   (\<exists>r d'. generate e args d = Some (r, d') \<and> take (length d) d' = d)"
proof -
  have "take (length d) (snd (create c d)) = d" by (simp add: create_def)
  moreover have "snd (list_query limit d) = d" by (simp add: list_query_def Let_def)
  ultimately show ?thesis using update_only_patches [of a d] generate_returns [of e args d]
    by blast
qed

theorem update_frame_witness:
  "update example_patch example_table =
     (Inr (), example_table [1 := (example_doc 10) \<lparr> image.status := ''failed'',
          image.error := Some ''provider unreachable'', image.updatedAt := 99 \<rparr>]) \<and>
   (1::nat) < length example_table \<and>
   image.prompt (snd (update example_patch example_table) ! 1) = ''a red fox'' \<and>
   image.createdAt (snd (update example_patch example_table) ! 1) = 10 \<and>
   snd (update example_patch example_table) ! 0 = example_doc 30"
proof -
  have u: "update example_patch example_table =
     (Inr (), example_table [1 := (example_doc 10) \<lparr> image.status := ''failed'',
          image.error := Some ''provider unreachable'', image.updatedAt := 99 \<rparr>])"
    by (simp add: update_def example_patch_def example_table_def patch_def)
  have l: "(1::nat) < length example_table" "(0::nat) < length example_table"
    by (simp_all add: example_table_def)
  from update_frame [where a = example_patch and d = example_table] u
  have f: "\<forall>i < length example_table.
         image.prompt (snd (update example_patch example_table) ! i) = image.prompt (example_table ! i) \<and>
         image.createdAt (snd (update example_patch example_table) ! i) = image.createdAt (example_table ! i) \<and>
         (i \<noteq> image_id example_patch \<longrightarrow> snd (update example_patch example_table) ! i = example_table ! i)"
    by simp
  from f l(1) have "image.prompt (snd (update example_patch example_table) ! 1) = image.prompt (example_table ! 1)"
    "image.createdAt (snd (update example_patch example_table) ! 1) = image.createdAt (example_table ! 1)"
    by blast+
  moreover from f l(2) have "snd (update example_patch example_table) ! 0 = example_table ! 0"
    by (simp add: example_patch_def)
  ultimately show ?thesis using u l
    by (simp add: example_table_def example_doc_def)
qed

text \<open>
  C10. The expression \<open>Math.min(4, Math.max(1, x))\<close> returns \<open>x\<close> itself for every number
  \<open>x\<close> between 1 and 4, integer or not. For valid arguments with \<open>numImages = 2.5\<close>, which
  is not an integer, the document of the call stores 2.5.
\<close>

theorem clamp_keeps_fractions:
  "(number_le (Fin 1) x \<and> number_le x (Fin 4) \<longrightarrow>
      Math_min (Fin 4) (Math_max (Fin 1) x) = x) \<and>
   (generate_args_valid args \<and> generate_args.numImages args = Some (Fin (5 / 2)) \<longrightarrow>
      (\<exists>r q. generate e args d = Some (r, d @ [q]) \<and> image.numImages q = Fin (5 / 2))) \<and>
   (5 / 2 :: rat) \<notin> \<int>"
proof -
  have a: "number_le (Fin 1) x \<and> number_le x (Fin 4) \<longrightarrow>
      Math_min (Fin 4) (Math_max (Fin 1) x) = x"
    by (cases x) (auto simp: clamp_cases number_le_def)
  have b: "generate_args_valid args \<and> generate_args.numImages args = Some (Fin (5 / 2)) \<longrightarrow>
      (\<exists>r q. generate e args d = Some (r, d @ [q]) \<and> image.numImages q = Fin (5 / 2))"
  proof
    assume h: "generate_args_valid args \<and> generate_args.numImages args = Some (Fin (5 / 2))"
    then have "clamped args = Fin (5 / 2)" by (simp add: clamped_def clamp_cases)
    with generate_record [of args e d] h show
      "\<exists>r q. generate e args d = Some (r, d @ [q]) \<and> image.numImages q = Fin (5 / 2)"
      by auto
  qed
  have c: "(5 / 2 :: rat) \<notin> \<int>"
  proof
    assume "(5 / 2 :: rat) \<in> \<int>"
    then obtain k :: int where "(5 / 2 :: rat) = of_int k" by (auto elim: Ints_cases)
    then have "(of_int 5 :: rat) = of_int (2 * k)" by simp
    then have "(5 :: int) = 2 * k" by (simp only: of_int_eq_iff)
    then show False by presburger
  qed
  from a b c show ?thesis by blast
qed

theorem clamp_keeps_fractions_witness:
  "number_le (Fin 1) (Fin (5 / 2)) \<and> number_le (Fin (5 / 2)) (Fin 4) \<and>
   Math_min (Fin 4) (Math_max (Fin 1) (Fin (5 / 2))) = Fin (5 / 2) \<and>
   generate_args_valid (example_args \<lparr> generate_args.numImages := Some (Fin (5 / 2)) \<rparr>) \<and>
   (\<exists>r q. generate example_env
             (example_args \<lparr> generate_args.numImages := Some (Fin (5 / 2)) \<rparr>) [] = Some (r, [q]) \<and>
           image.numImages q = Fin (5 / 2))"
proof -
  have r: "number_le (Fin 1) (Fin (5 / 2)) \<and> number_le (Fin (5 / 2)) (Fin 4)"
    by (simp add: number_le_def)
  have v: "generate_args_valid (example_args \<lparr> generate_args.numImages := Some (Fin (5 / 2)) \<rparr>)"
    using example_args_valid by (simp add: generate_args_valid_def)
  from clamp_keeps_fractions [of "Fin (5 / 2)"
      "example_args \<lparr> generate_args.numImages := Some (Fin (5 / 2)) \<rparr>" example_env "[]"] r v
  show ?thesis by simp
qed

end
